theory Spec2Isabelle
  imports Main "HOL-Library.Word"
begin

unbundle bit_operations_syntax

section \<open>Strings and bytes\<close>

text \<open>
  A JavaScript string is modelled as the list of its code points; a code point in
  D800--DFFF stands for a lone surrogate. White space and line terminators all lie in
  the basic plane, so \<open>trim\<close> and the regular expression of the relay see the same
  text on code points as on UTF-16 code units. A chunk of a body stream is a
  \<open>Uint8Array\<close>: a list of 8-bit words.
\<close>

type_synonym jsstring = "nat list"
type_synonym bytes = "8 word list"

definition ascii :: "string \<Rightarrow> jsstring" where
  "ascii s = map of_char s"

definition is_line_terminator :: "nat \<Rightarrow> bool" where
  "is_line_terminator c = (c = 0x0A \<or> c = 0x0D \<or> c = 0x2028 \<or> c = 0x2029)"

definition is_white_space :: "nat \<Rightarrow> bool" where
  "is_white_space c =
     (c = 0x09 \<or> c = 0x0B \<or> c = 0x0C \<or> c = 0x20 \<or> c = 0xA0 \<or> c = 0x1680
      \<or> (0x2000 \<le> c \<and> c \<le> 0x200A) \<or> c = 0x202F \<or> c = 0x205F \<or> c = 0x3000
      \<or> c = 0xFEFF)"

text \<open>The class \<open>\s\<close> of a regular expression, and what \<open>String.prototype.trim\<close> strips.\<close>

definition is_space :: "nat \<Rightarrow> bool" where
  "is_space c = (is_white_space c \<or> is_line_terminator c)"

definition trim :: "jsstring \<Rightarrow> jsstring" where
  "trim s = rev (dropWhile is_space (rev (dropWhile is_space s)))"

text \<open>A number in a template literal: its decimal digits.\<close>

fun show_nat :: "nat \<Rightarrow> jsstring" where
  "show_nat n = (if n < 10 then [48 + n] else show_nat (n div 10) @ [48 + n mod 10])"

declare show_nat.simps [simp del]

section \<open>The platform's UTF-8 decoder and encoder\<close>

text \<open>
  \<open>TextDecoder\<close> is the platform's, not the repository's; it is modelled after the
  Encoding standard's UTF-8 decoder. The handler reads one byte and returns the items it
  emits: a code point, or an error, which the default (non-fatal) error mode turns into
  U+FFFD. A byte that ends a sequence early is an error and is then read again by the
  reset decoder.
\<close>

record utf8_decoder =
  code_point :: nat
  bytes_seen :: nat
  bytes_needed :: nat
  lower_boundary :: "8 word"
  upper_boundary :: "8 word"

datatype item = CodePoint nat | DecodeError

definition utf8_initial :: utf8_decoder where
  "utf8_initial = \<lparr>code_point = 0, bytes_seen = 0, bytes_needed = 0,
     lower_boundary = 0x80, upper_boundary = 0xBF\<rparr>"

definition lead_byte :: "utf8_decoder \<Rightarrow> 8 word \<Rightarrow> item list \<times> utf8_decoder" where
  "lead_byte d b =
     (if b \<le> 0x7F then ([CodePoint (unat b)], d)
      else if 0xC2 \<le> b \<and> b \<le> 0xDF then
        ([], d\<lparr>bytes_needed := 1, code_point := unat (b AND 0x1F)\<rparr>)
      else if 0xE0 \<le> b \<and> b \<le> 0xEF then
        ([], d\<lparr>lower_boundary := (if b = 0xE0 then 0xA0 else lower_boundary d),
               upper_boundary := (if b = 0xED then 0x9F else upper_boundary d),
               bytes_needed := 2, code_point := unat (b AND 0xF)\<rparr>)
      else if 0xF0 \<le> b \<and> b \<le> 0xF4 then
        ([], d\<lparr>lower_boundary := (if b = 0xF0 then 0x90 else lower_boundary d),
               upper_boundary := (if b = 0xF4 then 0x8F else upper_boundary d),
               bytes_needed := 3, code_point := unat (b AND 0x7)\<rparr>)
      else ([DecodeError], d))"

definition utf8_handler :: "utf8_decoder \<Rightarrow> 8 word \<Rightarrow> item list \<times> utf8_decoder" where
  "utf8_handler d b =
     (if bytes_needed d = 0 then lead_byte d b
      else if \<not> (lower_boundary d \<le> b \<and> b \<le> upper_boundary d) then
        (let (out, d') = lead_byte utf8_initial b in (DecodeError # out, d'))
      else
        (let d1 = d\<lparr>lower_boundary := 0x80, upper_boundary := 0xBF,
                      code_point := push_bit 6 (code_point d) OR unat (b AND 0x3F),
                      bytes_seen := bytes_seen d + 1\<rparr>
         in if bytes_seen d1 \<noteq> bytes_needed d1 then ([], d1)
            else ([CodePoint (code_point d1)], utf8_initial)))"

fun utf8_run :: "utf8_decoder \<Rightarrow> bytes \<Rightarrow> item list \<times> utf8_decoder" where
  "utf8_run d [] = ([], d)"
| "utf8_run d (b # bs) =
     (let (out, d') = utf8_handler d b; (outs, d'') = utf8_run d' bs
      in (out @ outs, d''))"

text \<open>End of queue: an unfinished sequence is an error.\<close>

definition utf8_flush :: "utf8_decoder \<Rightarrow> item list \<times> utf8_decoder" where
  "utf8_flush d = (if bytes_needed d \<noteq> 0 then ([DecodeError], d\<lparr>bytes_needed := 0\<rparr>)
                   else ([], d))"

definition replacement :: "item \<Rightarrow> nat" where
  "replacement i = (case i of CodePoint c \<Rightarrow> c | DecodeError \<Rightarrow> 0xFFFD)"

text \<open>
  A \<open>TextDecoder\<close> object: the decoder, whether a byte order mark was already looked for,
  and the "do not flush" flag that the option \<open>stream\<close> of the previous call has set.
\<close>

record text_decoder =
  decoder :: utf8_decoder
  bom_seen :: bool
  do_not_flush :: bool

definition new_TextDecoder :: text_decoder where
  "new_TextDecoder = \<lparr>decoder = utf8_initial, bom_seen = False, do_not_flush = False\<rparr>"

text \<open>Serialising the output: the first code point of a stream is dropped when it is U+FEFF.\<close>

definition serialize :: "bool \<Rightarrow> jsstring \<Rightarrow> jsstring \<times> bool" where
  "serialize seen out =
     (if seen then (out, True)
      else (case out of [] \<Rightarrow> ([], False)
            | c # cs \<Rightarrow> if c = 0xFEFF then (cs, True) else (c # cs, True)))"

text \<open>\<open>decoder.decode(input, {stream})\<close>: the text, and the object after the call.\<close>

definition decode :: "text_decoder \<Rightarrow> bytes \<Rightarrow> bool \<Rightarrow> jsstring \<times> text_decoder" where
  "decode td input stream =
     (let td1 = (if do_not_flush td then td
                 else td\<lparr>decoder := utf8_initial, bom_seen := False\<rparr>);
          (items, d) = utf8_run (decoder td1) input;
          (items', d') = (if stream then (items, d)
                          else (let (e, d2) = utf8_flush d in (items @ e, d2)));
          (text, seen) = serialize (bom_seen td1) (map replacement items')
      in (text, \<lparr>decoder = d', bom_seen = seen, do_not_flush = stream\<rparr>))"

text \<open>A byte sequence decodes validly when the decoder meets no error up to its end.\<close>

definition decodes_validly :: "bytes \<Rightarrow> bool" where
  "decodes_validly bs =
     (let (items, d) = utf8_run utf8_initial bs
      in DecodeError \<notin> set (items @ fst (utf8_flush d)))"

text \<open>\<open>TextEncoder.encode\<close>: a lone surrogate becomes U+FFFD, each scalar value its UTF-8 bytes.\<close>

definition utf8_bytes :: "nat \<Rightarrow> bytes" where
  "utf8_bytes c =
     (if c < 0x80 then [of_nat c]
      else if c < 0x800 then [of_nat (0xC0 + c div 64), of_nat (0x80 + c mod 64)]
      else if c < 0x10000 then
        [of_nat (0xE0 + c div 4096), of_nat (0x80 + c div 64 mod 64), of_nat (0x80 + c mod 64)]
      else
        [of_nat (0xF0 + c div 262144), of_nat (0x80 + c div 4096 mod 64),
         of_nat (0x80 + c div 64 mod 64), of_nat (0x80 + c mod 64)])"

definition encode :: "jsstring \<Rightarrow> bytes" where
  "encode s = concat (map (\<lambda>c. utf8_bytes (if 0xD800 \<le> c \<and> c \<le> 0xDFFF then 0xFFFD else c)) s)"

section \<open>Values made by \<open>JSON.parse\<close>\<close>

text \<open>
  A number is kept as its rendering by the engine (\<open>JNum (ascii ''0'')\<close> is zero); an
  object lists its own properties, each name once.
\<close>

datatype json =
  JNull | JBool bool | JNum jsstring | JStr jsstring | JArr "json list"
  | JObj "(jsstring \<times> json) list"

text \<open>
  What the relay takes from the engine: \<open>JSON.parse\<close> (\<open>None\<close> when it throws) and
  the conversion to a string of a value that is not one (\<open>None\<close> when it throws).
\<close>

record platform =
  JSON_parse :: "jsstring \<Rightarrow> json option"
  ToString :: "json \<Rightarrow> jsstring option"

text \<open>
  Reading the property \<open>name\<close> of a value that is neither \<open>null\<close> nor \<open>undefined\<close>, for
  the names the relay reads (\<open>role\<close>, \<open>content\<close>, \<open>candidates\<close>, \<open>parts\<close>, \<open>text\<close> and the
  index \<open>0\<close>); \<open>None\<close> is \<open>undefined\<close>. Index 0 of a string is its first code unit.
\<close>

fun get_prop :: "json \<Rightarrow> jsstring \<Rightarrow> json option" where
  "get_prop (JObj kvs) name = map_of kvs name"
| "get_prop (JArr xs) name =
     (if name = ascii ''0'' then (case xs of [] \<Rightarrow> None | x # _ \<Rightarrow> Some x) else None)"
| "get_prop (JStr s) name =
     (if name = ascii ''0'' then
        (case s of [] \<Rightarrow> None
         | c # _ \<Rightarrow> Some (JStr [if c < 0x10000 then c else 0xD800 + (c - 0x10000) div 1024]))
      else None)"
| "get_prop _ name = None"

text \<open>Optional chaining, \<open>x?.name\<close>.\<close>

definition opt_get :: "json option \<Rightarrow> jsstring \<Rightarrow> json option" where
  "opt_get x name = (case x of None \<Rightarrow> None | Some JNull \<Rightarrow> None | Some v \<Rightarrow> get_prop v name)"

text \<open>What counts as true, of a value and of a value that may be \<open>undefined\<close>.\<close>

fun truthy :: "json \<Rightarrow> bool" where
  "truthy JNull = False"
| "truthy (JBool b) = b"
| "truthy (JNum n) = (n \<noteq> ascii ''0'')"
| "truthy (JStr s) = (s \<noteq> [])"
| "truthy (JArr _) = True"
| "truthy (JObj _) = True"

definition truthy_opt :: "json option \<Rightarrow> bool" where
  "truthy_opt x = (case x of None \<Rightarrow> False | Some v \<Rightarrow> truthy v)"

section \<open>The relay: \<open>src/app/api/chat/route.ts\<close>\<close>

subsection \<open>Messages\<close>

text \<open>
  A message as both files type it, and the object it is in a request body. The type
  annotation of the handler is gone at run time: what the handler reads is whatever
  \<open>req.json()\<close> has parsed.
\<close>

datatype role = User | Assistant

record ClientMessage =
  role :: role
  content :: jsstring

definition message_json :: "ClientMessage \<Rightarrow> json" where
  "message_json m =
     JObj [(ascii ''role'', JStr (case role m of User \<Rightarrow> ascii ''user''
                                    | Assistant \<Rightarrow> ascii ''assistant'')),
           (ascii ''content'', JStr (content m))]"

subsection \<open>The conversation cache\<close>

text \<open>
  A key of the \<open>Map\<close>: a string, a number, \<open>true\<close>, or an object or array, which is a key
  by its identity (a reference).
\<close>

datatype key = KString jsstring | KNumber jsstring | KTrue | KObject nat

record StoredConversation =
  messages :: "json list"
  expiresAt :: int

definition CONVO_TTL_MS :: int where
  "CONVO_TTL_MS = 60 * 60 * 1000"

text \<open>
  \<open>conversations\<close> is a \<open>Map\<close> from session identifiers to stored conversations.
  \<open>cleanupExpired\<close> visits every entry once and deletes the expired ones; \<open>now\<close> is
  the reading of \<open>Date.now()\<close>, in milliseconds.
\<close>

type_synonym conversations = "key \<rightharpoonup> StoredConversation"

definition cleanupExpired :: "int \<Rightarrow> conversations \<Rightarrow> conversations" where
  "cleanupExpired now conv =
     (\<lambda>k. case conv k of None \<Rightarrow> None
          | Some v \<Rightarrow> if expiresAt v \<le> now then None else Some v)"

text \<open>
  Lines 47--53: the filter \<open>!(m.role === "assistant" && !m.content)\<close>, and the store with
  its expiry.
\<close>

definition toStore :: "json list \<Rightarrow> json list" where
  "toStore ms =
     filter (\<lambda>m. \<not> (get_prop m (ascii ''role'') = Some (JStr (ascii ''assistant''))
                    \<and> \<not> truthy_opt (get_prop m (ascii ''content'')))) ms"

definition conversations_set ::
  "key \<Rightarrow> json list \<Rightarrow> int \<Rightarrow> conversations \<Rightarrow> conversations" where
  "conversations_set sid ms now conv =
     conv(sid \<mapsto> \<lparr>messages = ms, expiresAt = now + CONVO_TTL_MS\<rparr>)"

subsection \<open>Parsing the upstream's events\<close>

text \<open>
  The regular expression \<open>/data:\s*(\{.*\})/g\<close> tried at the start of \<open>s\<close>. After
  \<open>data:\<close> the greedy \<open>\s*\<close> takes all the white space (a brace is none, so giving
  some back never helps); then comes the brace, and the greedy \<open>.*\<close> runs to the end of
  the line and gives back up to the last closing brace of that line. The result is the
  captured group and the length of the whole match.
\<close>

definition match_here :: "jsstring \<Rightarrow> (jsstring \<times> nat) option" where
  "match_here s =
     (if take 5 s = ascii ''data:'' then
        (let after = drop 5 s;
             ws = takeWhile is_space after
         in case dropWhile is_space after of
              [] \<Rightarrow> None
            | c # body \<Rightarrow>
                if c \<noteq> 0x7B then None
                else (let line = takeWhile (\<lambda>c. \<not> is_line_terminator c) body;
                          inner = rev (dropWhile (\<lambda>c. c \<noteq> 0x7D) (rev line))
                      in if inner = [] then None
                         else Some (0x7B # inner, 5 + length ws + 1 + length inner)))
      else None)"

text \<open>
  \<open>chunk.matchAll(...)\<close>: the captures of the successive matches, leftmost first, each
  search starting where the previous match ended (\<open>skip\<close> counts the characters of the
  previous match still to pass).
\<close>

fun scan :: "nat \<Rightarrow> jsstring \<Rightarrow> jsstring list" where
  "scan skip [] = []"
| "scan skip (c # cs) =
     (if 0 < skip then scan (skip - 1) cs
      else (case match_here (c # cs) of
              None \<Rightarrow> scan 0 cs
            | Some (cap, n) \<Rightarrow> cap # scan (n - 1) cs))"

definition matchAll :: "jsstring \<Rightarrow> jsstring list" where
  "matchAll chunk = scan 0 chunk"

text \<open>\<open>json?.candidates?.[0]?.content?.parts?.[0]?.text ?? ""\<close>\<close>

definition extract_text :: "json \<Rightarrow> json" where
  "extract_text j =
     (case opt_get (opt_get (opt_get (opt_get (opt_get (opt_get (Some j)
             (ascii ''candidates'')) (ascii ''0'')) (ascii ''content''))
             (ascii ''parts'')) (ascii ''0'')) (ascii ''text'') of
        None \<Rightarrow> JStr [] | Some JNull \<Rightarrow> JStr [] | Some v \<Rightarrow> v)"

text \<open>
  The body of the loop over the matches, lines 94--102, on the queue of the outgoing
  stream. Whatever throws inside \<open>try\<close> is caught and the event is passed over.
  (\<open>fullText\<close> is written and never read.)
\<close>

definition process_match :: "platform \<Rightarrow> jsstring \<Rightarrow> bytes list \<Rightarrow> bytes list" where
  "process_match P captured queue =
     (case JSON_parse P captured of
        None \<Rightarrow> queue
      | Some j \<Rightarrow>
          (let text = extract_text j
           in if truthy text then
                (case text of
                   JStr s \<Rightarrow> queue @ [encode s]
                 | _ \<Rightarrow> (case ToString P text of
                           None \<Rightarrow> queue
                         | Some s \<Rightarrow> queue @ [encode s]))
              else queue))"

fun for_matches :: "platform \<Rightarrow> jsstring list \<Rightarrow> bytes list \<Rightarrow> bytes list" where
  "for_matches P [] queue = queue"
| "for_matches P (m # ms) queue = for_matches P ms (process_match P m queue)"

text \<open>
  The \<open>while\<close> loop of \<open>start\<close>, lines 86--104, over the chunks the upstream body yields
  until it is done. Each chunk is decoded by itself (\<open>decode\<close> without \<open>stream\<close>) and
  searched by itself. The result is the queue when the stream is closed. (The body is
  taken to end; a read that fails and a client that cancels are outside the model.)
\<close>

fun pump :: "platform \<Rightarrow> text_decoder \<Rightarrow> bytes list \<Rightarrow> bytes list \<Rightarrow> bytes list" where
  "pump P td [] queue = queue"
| "pump P td (val # rest) queue =
     (let (chunk, td') = decode td val False
      in pump P td' rest (for_matches P (matchAll chunk) queue))"

definition start :: "platform \<Rightarrow> bytes list \<Rightarrow> bytes list" where
  "start P upstream_body = pump P new_TextDecoder upstream_body []"

text \<open>The matches the relay finds in one chunk.\<close>

definition received_events :: "bytes \<Rightarrow> jsstring list" where
  "received_events val = matchAll (fst (decode new_TextDecoder val False))"

text \<open>
  To compare with, in the specification's words and apart from the relay's code: the
  text fragment of an event is the string at \<open>candidates[0].content.parts[0].text\<close> of its
  parsed payload, if there is one and it is not empty; and what is to be forwarded for a
  row of events is, in order, the UTF-8 bytes of the fragments of those events that parse
  and have one.
\<close>

fun own_property :: "jsstring \<Rightarrow> json \<Rightarrow> json option" where
  "own_property name (JObj kvs) = map_of kvs name"
| "own_property name _ = None"

fun first_element :: "json \<Rightarrow> json option" where
  "first_element (JArr (x # xs)) = Some x"
| "first_element _ = None"

fun nonempty_string :: "json \<Rightarrow> jsstring option" where
  "nonempty_string (JStr s) = (if s = [] then None else Some s)"
| "nonempty_string _ = None"

definition text_fragment :: "json \<Rightarrow> jsstring option" where
  "text_fragment j =
     Option.bind (Option.bind (Option.bind (Option.bind (Option.bind (Option.bind
       (own_property (ascii ''candidates'') j) first_element) (own_property (ascii ''content'')))
       (own_property (ascii ''parts''))) first_element) (own_property (ascii ''text''))) nonempty_string"

definition fragments_of_valid_events :: "platform \<Rightarrow> jsstring list \<Rightarrow> bytes list" where
  "fragments_of_valid_events P payloads =
     map encode (List.map_filter (\<lambda>p. Option.bind (JSON_parse P p) text_fragment) payloads)"

subsection \<open>The handler\<close>

text \<open>
  The request as the destructuring of \<open>await req.json()\<close> at lines 25--28 gives it: the
  two fields, each absent or whatever value was parsed. And what \<open>fetch\<close> comes to: it
  throws, or it resolves to a response, of which the handler reads the status, the status
  text, the body (absent, or the chunks it yields) and, through \<open>text()\<close>, the error text
  (\<open>None\<close> when that fails).
\<close>

record request =
  req_messages :: "json option"
  req_sessionId :: "json option"

record upstream_response =
  up_status :: nat
  up_statusText :: jsstring
  up_body :: "bytes list option"
  up_text :: "jsstring option"

datatype fetch_result = Throws | Resolves upstream_response

definition ok :: "upstream_response \<Rightarrow> bool" where
  "ok u = (200 \<le> up_status u \<and> up_status u \<le> 299)"

datatype body = Text jsstring | Stream "bytes list"

record response =
  status :: nat
  body :: body

text \<open>
  \<open>sessionId || crypto.randomUUID()\<close>, with \<open>uuid\<close> the identifier drawn and \<open>ref\<close> the
  reference of the parsed \<open>sessionId\<close> when that is an object or an array.
\<close>

definition session_key :: "request \<Rightarrow> jsstring \<Rightarrow> nat \<Rightarrow> key" where
  "session_key r uuid ref =
     (case req_sessionId r of
        None \<Rightarrow> KString uuid
      | Some v \<Rightarrow>
          if \<not> truthy v then KString uuid
          else (case v of JStr s \<Rightarrow> KString s | JNum n \<Rightarrow> KNumber n | JBool b \<Rightarrow> KTrue
                | _ \<Rightarrow> KObject ref))"

text \<open>
  \<open>(messages || [])\<close> as the array that lines 41--49 map and filter; \<open>None\<close> when the
  mapping throws: \<open>messages\<close> counts as true and is no array (it has no \<open>map\<close> to call), or
  an element is \<open>null\<close> (reading \<open>m.role\<close> throws).
\<close>

definition message_list :: "request \<Rightarrow> json list option" where
  "message_list r =
     (case req_messages r of
        None \<Rightarrow> Some []
      | Some v \<Rightarrow>
          if \<not> truthy v then Some []
          else (case v of
                  JArr ms \<Rightarrow> if JNull \<in> set ms then None else Some ms
                | _ \<Rightarrow> None))"

definition upstream_error :: "upstream_response \<Rightarrow> jsstring" where
  "upstream_error u =
     ascii ''Upstream error: '' @ show_nat (up_status u) @ ascii '' '' @ up_statusText u
       @ [0x0A] @ (case up_text u of None \<Rightarrow> [] | Some t \<Rightarrow> t)"

text \<open>
  \<open>POST\<close>. Its inputs besides the cache: the request (\<open>None\<close> when \<open>req.json()\<close> or the
  destructuring of its result throws), the credential of the environment, the two
  readings of the clock (in the sweep and in the store), the identifier
  \<open>crypto.randomUUID()\<close> draws, the reference of the parsed \<open>sessionId\<close>, and the outcome
  of the upstream call. Every exception ends in the \<open>catch\<close> of lines 118--121: one
  thrown by the mapping of line 41, before the store, and one thrown by the upstream call,
  after it. The mapped \<open>contents\<close> go into the upstream call only. The result is the
  response and the cache afterwards.
\<close>

definition POST ::
  "platform \<Rightarrow> conversations \<Rightarrow> request option \<Rightarrow> jsstring option \<Rightarrow> int \<Rightarrow> int \<Rightarrow> jsstring
     \<Rightarrow> nat \<Rightarrow> fetch_result \<Rightarrow> response \<times> conversations" where
  "POST P conv req apiKey now1 now2 uuid ref upstream =
     (case req of
        None \<Rightarrow> (\<lparr>status = 400, body = Text (ascii ''Bad Request'')\<rparr>, conv)
      | Some r \<Rightarrow>
          (let conv1 = cleanupExpired now1 conv;
               sid = session_key r uuid ref
           in if apiKey = None \<or> apiKey = Some [] then
                (\<lparr>status = 500, body = Text (ascii ''Missing GEMINI_API_KEY'')\<rparr>, conv1)
              else
                (case message_list r of
                   None \<Rightarrow> (\<lparr>status = 400, body = Text (ascii ''Bad Request'')\<rparr>, conv1)
                 | Some ms \<Rightarrow>
                     (let conv2 = conversations_set sid (toStore ms) now2 conv1
                      in case upstream of
                           Throws \<Rightarrow>
                             (\<lparr>status = 400, body = Text (ascii ''Bad Request'')\<rparr>, conv2)
                         | Resolves u \<Rightarrow>
                             if \<not> ok u \<or> up_body u = None then
                               (\<lparr>status = 502, body = Text (upstream_error u)\<rparr>, conv2)
                             else
                               (\<lparr>status = 200,
                                 body = Stream (start P (case up_body u of None \<Rightarrow> []
                                                         | Some chunks \<Rightarrow> chunks))\<rparr>,
                                conv2)))))"


text \<open>
  For evaluating the relay at a given input: an engine of which \<open>JSON.parse\<close> is known
  at the payloads listed, each with the value it parses to. (At these inputs no text is
  other than a string, so the conversion to a string is never asked for.)
\<close>

definition engine :: "(jsstring \<times> json) list \<Rightarrow> platform" where
  "engine table = \<lparr>JSON_parse = map_of table, ToString = (\<lambda>v. None)\<rparr>"

text \<open>
  Inputs to evaluate the relay at: the bytes of an ASCII text, an upstream event that
  carries the text \<open>s\<close>, payloads as the upstream writes them (the last cannot be parsed),
  the line of the event stream that carries a payload, an engine that knows how the
  payloads parse, and the request a client makes of typed messages.
\<close>

definition bytes_of :: "string \<Rightarrow> bytes" where
  "bytes_of s = map of_char s"

definition text_event :: "jsstring \<Rightarrow> json" where
  "text_event s =
     JObj [(ascii ''candidates'',
       JArr [JObj [(ascii ''content'',
         JObj [(ascii ''parts'', JArr [JObj [(ascii ''text'', JStr s)]])])]])]"

definition Hel_json :: string where
  \<open>Hel_json = ''{"candidates":[{"content":{"parts":[{"text":"Hel"}]}}]}''\<close>

definition lo_json :: string where
  \<open>lo_json = ''{"candidates":[{"content":{"parts":[{"text":"lo"}]}}]}''\<close>

definition Hello_json :: string where
  \<open>Hello_json = ''{"candidates":[{"content":{"parts":[{"text":"Hello"}]}}]}''\<close>

definition bad_json :: string where
  \<open>bad_json = ''{"candidates":[}''\<close>

definition data_line :: "string \<Rightarrow> bytes" where
  "data_line written = bytes_of (''data: '' @ written) @ [0x0A, 0x0A]"

definition example_engine :: platform where
  "example_engine = engine [(ascii Hel_json, text_event (ascii ''Hel'')),
                            (ascii lo_json, text_event (ascii ''lo'')),
                            (ascii Hello_json, text_event (ascii ''Hello''))]"

definition typed_request :: "ClientMessage list \<Rightarrow> json option \<Rightarrow> request" where
  "typed_request ms sid = \<lparr>req_messages = Some (JArr (map message_json ms)), req_sessionId = sid\<rparr>"

text \<open>
  The history "with only a trailing empty assistant message (if one exists) removed", as
  the specification words what is stored; to compare with \<open>toStore\<close>.
\<close>

definition without_trailing_empty_assistant :: "ClientMessage list \<Rightarrow> ClientMessage list" where
  "without_trailing_empty_assistant ms =
     (if ms \<noteq> [] \<and> role (last ms) = Assistant \<and> content (last ms) = [] then butlast ms
      else ms)"

section \<open>The client: \<open>src/components/chat-view.tsx\<close>\<close>

record Message = ClientMessage +
  msg_id :: jsstring

text \<open>The content of a new assistant draft, \<open>Thinking\<close> and a horizontal ellipsis.\<close>

definition Thinking :: jsstring where
  "Thinking = ascii ''Thinking'' @ [0x2026]"

text \<open>
  A call of \<open>handleSend\<close> that is suspended at an \<open>await\<close>: before the response has come
  (sending), or in the reading loop, with its decoder and its accumulator (streaming).
\<close>

datatype phase = Sending | Streaming text_decoder jsstring

record turn =
  draft_id :: jsstring
  phase :: phase

text \<open>The state of the component: its four state variables and the calls in flight.\<close>

record ChatView =
  ui_messages :: "Message list"
  ui_loading :: bool
  ui_error :: "jsstring option"
  ui_sessionId :: "jsstring option"
  ui_turns :: "turn list"

definition initial :: ChatView where
  "initial = \<lparr>ui_messages = [], ui_loading = False, ui_error = None, ui_sessionId = None,
     ui_turns = []\<rparr>"

text \<open>\<open>!sessionId\<close>\<close>

definition no_session :: "ChatView \<Rightarrow> bool" where
  "no_session st = (ui_sessionId st = None \<or> ui_sessionId st = Some [])"

text \<open>
  \<open>handleSend\<close> up to its first \<open>await\<close>, lines 144--159; \<open>new_id\<close> and \<open>new_draft\<close> are
  the identifiers that \<open>crypto.randomUUID()\<close> draws.
\<close>

definition handleSend :: "ChatView \<Rightarrow> jsstring \<Rightarrow> jsstring \<Rightarrow> jsstring \<Rightarrow> ChatView" where
  "handleSend st text new_id new_draft =
     (if no_session st then st
      else
        (let userMsg = \<lparr>role = User, content = text, msg_id = new_id\<rparr>;
             assistantDraft = \<lparr>role = Assistant, content = Thinking, msg_id = new_draft\<rparr>
         in st\<lparr>ui_messages := ui_messages st @ [userMsg, assistantDraft],
               ui_error := None,
               ui_loading := True,
               ui_turns := ui_turns st @ [\<lparr>draft_id = new_draft, phase = Sending\<rparr>]\<rparr>))"

text \<open>
  The form's \<open>onSubmit\<close>, lines 239--249; \<open>fd_message\<close> is what
  \<open>fd.get("message")\<close> returns, \<open>None\<close> for \<open>null\<close>.
\<close>

definition onSubmit :: "ChatView \<Rightarrow> jsstring option \<Rightarrow> jsstring \<Rightarrow> jsstring \<Rightarrow> ChatView" where
  "onSubmit st fd_message new_id new_draft =
     (let text = trim (case fd_message of None \<Rightarrow> [] | Some v \<Rightarrow> v)
      in if text = [] then st else handleSend st text new_id new_draft)"

text \<open>
  The input and the button are rendered with \<open>disabled={loading || !sessionId}\<close>, and the
  form data of a form leaves out a disabled control: \<open>fd.get("message")\<close> is then \<open>null\<close>.
  \<open>submit\<close> is a submit event on the rendered form, with \<open>typed\<close> in the input.
\<close>

definition disabled :: "ChatView \<Rightarrow> bool" where
  "disabled st = (ui_loading st \<or> no_session st)"

definition form_message :: "ChatView \<Rightarrow> jsstring \<Rightarrow> jsstring option" where
  "form_message st typed = (if disabled st then None else Some typed)"

definition submit :: "ChatView \<Rightarrow> jsstring \<Rightarrow> jsstring \<Rightarrow> jsstring \<Rightarrow> ChatView" where
  "submit st typed new_id new_draft = onSubmit st (form_message st typed) new_id new_draft"

text \<open>
  One pass of the reading loop, lines 186--194: decode the chunk with \<open>stream: true\<close>,
  append to \<open>acc\<close>, and set the draft's content to \<open>acc || Thinking\<close>.
\<close>

definition set_draft :: "jsstring \<Rightarrow> jsstring \<Rightarrow> Message list \<Rightarrow> Message list" where
  "set_draft draft acc prev =
     map (\<lambda>m. if msg_id m = draft then m\<lparr>content := (if acc = [] then Thinking else acc)\<rparr> else m)
       prev"

definition read_chunk ::
  "jsstring \<Rightarrow> bytes \<Rightarrow> text_decoder \<times> jsstring \<times> Message list
     \<Rightarrow> text_decoder \<times> jsstring \<times> Message list" where
  "read_chunk draft val s =
     (case s of (td, acc, prev) \<Rightarrow>
        (let (text, td') = decode td val True;
             acc' = acc @ text
         in (td', acc', set_draft draft acc' prev)))"

text \<open>
  The whole loop, over the chunks the response body yields until it is done. (The
  decoder is never flushed: the client does not call \<open>decode\<close> once more at the end.)
\<close>

fun read_loop ::
  "jsstring \<Rightarrow> bytes list \<Rightarrow> text_decoder \<times> jsstring \<times> Message list
     \<Rightarrow> text_decoder \<times> jsstring \<times> Message list" where
  "read_loop draft [] s = s"
| "read_loop draft (val # rest) s = read_loop draft rest (read_chunk draft val s)"

text \<open>
  What can happen to the \<open>k\<close>-th call in flight. The response arrives with a success
  status and a body: the reading loop starts. A chunk is read. The body is done: \<open>finally\<close>
  clears \<open>loading\<close>. Anything throws (the fetch, a response that is not ok, a read):
  \<open>catch\<close> sets the error and \<open>finally\<close> clears \<open>loading\<close>.
\<close>

definition drop_turn :: "nat \<Rightarrow> turn list \<Rightarrow> turn list" where
  "drop_turn k ts = take k ts @ drop (Suc k) ts"

definition on_response :: "ChatView \<Rightarrow> nat \<Rightarrow> ChatView" where
  "on_response st k =
     (if k < length (ui_turns st) \<and> phase (ui_turns st ! k) = Sending then
        st\<lparr>ui_turns := (ui_turns st)[k := (ui_turns st ! k)\<lparr>phase := Streaming new_TextDecoder []\<rparr>]\<rparr>
      else st)"

definition on_chunk :: "ChatView \<Rightarrow> nat \<Rightarrow> bytes \<Rightarrow> ChatView" where
  "on_chunk st k val =
     (if k < length (ui_turns st) then
        (case phase (ui_turns st ! k) of
           Sending \<Rightarrow> st
         | Streaming td acc \<Rightarrow>
             (case read_chunk (draft_id (ui_turns st ! k)) val (td, acc, ui_messages st) of
                (td', acc', ms) \<Rightarrow>
                  st\<lparr>ui_messages := ms,
                     ui_turns := (ui_turns st)[k := (ui_turns st ! k)\<lparr>phase := Streaming td' acc'\<rparr>]\<rparr>))
      else st)"

definition on_done :: "ChatView \<Rightarrow> nat \<Rightarrow> ChatView" where
  "on_done st k =
     (if k < length (ui_turns st) \<and> phase (ui_turns st ! k) \<noteq> Sending then
        st\<lparr>ui_loading := False, ui_turns := drop_turn k (ui_turns st)\<rparr>
      else st)"

definition on_throw :: "ChatView \<Rightarrow> nat \<Rightarrow> ChatView" where
  "on_throw st k =
     (if k < length (ui_turns st) then
        st\<lparr>ui_error := Some (ascii ''Something went wrong. Please try again.''),
           ui_loading := False,
           ui_turns := drop_turn k (ui_turns st)\<rparr>
      else st)"

text \<open>
  The states the component can be in: it starts empty, the effect sets the session
  identifier, forms are submitted (the identifiers drawn are new), and the calls in
  flight move on.
\<close>

inductive reachable :: "ChatView \<Rightarrow> bool" where
  at_start: "reachable initial"
| after_mount: "reachable st \<Longrightarrow> reachable (st\<lparr>ui_sessionId := Some sid\<rparr>)"
| after_submit: "reachable st \<Longrightarrow> new_id \<noteq> new_draft \<Longrightarrow>
     new_id \<notin> msg_id ` set (ui_messages st) \<Longrightarrow> new_draft \<notin> msg_id ` set (ui_messages st) \<Longrightarrow>
     reachable (submit st typed new_id new_draft)"
| after_response: "reachable st \<Longrightarrow> reachable (on_response st k)"
| after_chunk: "reachable st \<Longrightarrow> reachable (on_chunk st k val)"
| after_done: "reachable st \<Longrightarrow> reachable (on_done st k)"
| after_throw: "reachable st \<Longrightarrow> reachable (on_throw st k)"

text \<open>An assistant message awaits content while the call that drew its identifier is in flight.\<close>

definition awaiting :: "ChatView \<Rightarrow> Message \<Rightarrow> bool" where
  "awaiting st m = (role m = Assistant \<and> msg_id m \<in> draft_id ` set (ui_turns st))"

text \<open>
  A decoder in the reading loop: it was last called with \<open>stream\<close>, or it is new (a call
  of \<open>decode\<close> resets a decoder that was not).
\<close>

definition streaming :: "text_decoder \<Rightarrow> bool" where
  "streaming td = (do_not_flush td \<or> (decoder td = utf8_initial \<and> \<not> bom_seen td))"

text \<open>A state to evaluate the client at: the component after its effect has run.\<close>

definition mounted :: ChatView where
  "mounted = initial\<lparr>ui_sessionId := Some (ascii ''s1'')\<rparr>"

section \<open>Properties of the relay\<close>

subsection \<open>The handler and the cache\<close>



lemma POST_stores:
  "apiKey = Some key \<Longrightarrow> key \<noteq> [] \<Longrightarrow> message_list r = Some ms \<Longrightarrow>
   snd (POST P conv (Some r) apiKey now1 now2 uuid ref upstream)
     = conversations_set (session_key r uuid ref) (toStore ms) now2 (cleanupExpired now1 conv)"
  by (auto simp: POST_def Let_def split: fetch_result.splits)

lemma POST_throws_in_map:
  "apiKey = Some key \<Longrightarrow> key \<noteq> [] \<Longrightarrow> message_list r = None \<Longrightarrow>
   POST P conv (Some r) apiKey now1 now2 uuid ref upstream
     = (\<lparr>status = 400, body = Text (ascii ''Bad Request'')\<rparr>, cleanupExpired now1 conv)"
  by (auto simp: POST_def Let_def)



text \<open>On messages typed as the handler declares them.\<close>

lemma message_list_typed: "message_list (typed_request ms sid) = Some (map message_json ms)"
  by (auto simp: message_list_def typed_request_def message_json_def)

lemma toStore_typed:
  "toStore (map message_json ms)
     = map message_json (filter (\<lambda>m. \<not> (role m = Assistant \<and> content m = [])) ms)"
proof (induction ms)
  case Nil
  then show ?case by (simp add: toStore_def)
next
  case (Cons m ms)
  have "(get_prop (message_json m) (ascii ''role'') = Some (JStr (ascii ''assistant''))
          \<and> \<not> truthy_opt (get_prop (message_json m) (ascii ''content'')))
        \<longleftrightarrow> (role m = Assistant \<and> content m = [])"
    by (cases "role m") (simp_all add: message_json_def truthy_opt_def ascii_def)
  with Cons show ?case by (simp add: toStore_def)
qed


text \<open>
  C8. An entry set at time \<open>t\<close> is there right after the set, under the expiry
  \<open>t + CONVO_TTL_MS\<close>. A sweep at a time later than \<open>t + CONVO_TTL_MS\<close> takes it out of
  the keys of the cache. A sweep leaves every other entry whose expiry is still ahead as it
  was; so an entry set for another session, whose expiry is still ahead, is found
  unchanged after the sweep.
\<close>

theorem cache_set_then_sweep:
  "conversations_set sid ms t conv sid = Some \<lparr>messages = ms, expiresAt = t + CONVO_TTL_MS\<rparr>
   \<and> (t + CONVO_TTL_MS < t' \<longrightarrow> sid \<notin> dom (cleanupExpired t' (conversations_set sid ms t conv)))
   \<and> (\<forall>k e. k \<noteq> sid \<longrightarrow> conversations_set sid ms t conv k = Some e \<longrightarrow> t' < expiresAt e \<longrightarrow>
         cleanupExpired t' (conversations_set sid ms t conv) k = Some e)
   \<and> (sid2 \<noteq> sid \<longrightarrow> t' < t2 + CONVO_TTL_MS \<longrightarrow>
         cleanupExpired t' (conversations_set sid2 ms2 t2 (conversations_set sid ms t conv)) sid2
           = Some \<lparr>messages = ms2, expiresAt = t2 + CONVO_TTL_MS\<rparr>)"
  by (auto simp: conversations_set_def cleanupExpired_def)

theorem cache_set_then_sweep_witness:
  "conversations_set (KString (ascii ''a'')) [] 0 Map.empty (KString (ascii ''a''))
      = Some \<lparr>messages = [], expiresAt = 3600000\<rparr>
   \<and> 0 + CONVO_TTL_MS < 3600001
   \<and> KString (ascii ''a'')
       \<notin> dom (cleanupExpired 3600001 (conversations_set (KString (ascii ''a'')) [] 0 Map.empty))
   \<and> KString (ascii ''b'') \<noteq> KString (ascii ''a'') \<and> 3600001 < 1000 + CONVO_TTL_MS
   \<and> cleanupExpired 3600001
        (conversations_set (KString (ascii ''b'')) [] 1000
           (conversations_set (KString (ascii ''a'')) [] 0 Map.empty))
        (KString (ascii ''b'')) = Some \<lparr>messages = [], expiresAt = 3601000\<rparr>"
  using cache_set_then_sweep [of "KString (ascii ''a'')" "[]" 0 Map.empty 3600001
      "KString (ascii ''b'')" 1000 "[]"]
  by (simp add: CONVO_TTL_MS_def ascii_def)

text \<open>
  C10. When the credential is missing (absent or empty), the handler answers 500 and the
  cache it leaves is the swept cache: the sweep has run, and nothing was set. So the
  entry of the request's session, unless its expiry had passed already, is as it was.
\<close>

theorem missing_credential_no_set:
  "apiKey = None \<or> apiKey = Some [] \<Longrightarrow>
   POST P conv (Some r) apiKey tsweep tstore uuid ref upstream
     = (\<lparr>status = 500, body = Text (ascii ''Missing GEMINI_API_KEY'')\<rparr>,
        cleanupExpired tsweep conv)
   \<and> ((\<forall>v. conv (session_key r uuid ref) = Some v \<longrightarrow> tsweep < expiresAt v) \<longrightarrow>
        snd (POST P conv (Some r) apiKey tsweep tstore uuid ref upstream) (session_key r uuid ref)
          = conv (session_key r uuid ref))"
  by (auto simp: POST_def cleanupExpired_def split: option.splits)

theorem missing_credential_no_set_witness:
  "(None = (None :: jsstring option) \<or> None = Some [])
   \<and> [KString (ascii ''s1'') \<mapsto> \<lparr>messages = [], expiresAt = 100\<rparr>,
       KString (ascii ''s2'') \<mapsto> \<lparr>messages = [], expiresAt = 10\<rparr>]
        (KString (ascii ''s1'')) = Some \<lparr>messages = [], expiresAt = 100\<rparr>
   \<and> (50 :: int) < 100
   \<and> fst (POST (engine [])
        [KString (ascii ''s1'') \<mapsto> \<lparr>messages = [], expiresAt = 100\<rparr>,
         KString (ascii ''s2'') \<mapsto> \<lparr>messages = [], expiresAt = 10\<rparr>]
        (Some (typed_request [\<lparr>role = User, content = ascii ''hi''\<rparr>]
                 (Some (JStr (ascii ''s1'')))))
        None 50 51 (ascii ''u1'') 0 Throws)
       = \<lparr>status = 500, body = Text (ascii ''Missing GEMINI_API_KEY'')\<rparr>
   \<and> snd (POST (engine [])
        [KString (ascii ''s1'') \<mapsto> \<lparr>messages = [], expiresAt = 100\<rparr>,
         KString (ascii ''s2'') \<mapsto> \<lparr>messages = [], expiresAt = 10\<rparr>]
        (Some (typed_request [\<lparr>role = User, content = ascii ''hi''\<rparr>]
                 (Some (JStr (ascii ''s1'')))))
        None 50 51 (ascii ''u1'') 0 Throws) (KString (ascii ''s1''))
       = Some \<lparr>messages = [], expiresAt = 100\<rparr>
   \<and> snd (POST (engine [])
        [KString (ascii ''s1'') \<mapsto> \<lparr>messages = [], expiresAt = 100\<rparr>,
         KString (ascii ''s2'') \<mapsto> \<lparr>messages = [], expiresAt = 10\<rparr>]
        (Some (typed_request [\<lparr>role = User, content = ascii ''hi''\<rparr>]
                 (Some (JStr (ascii ''s1'')))))
        None 50 51 (ascii ''u1'') 0 Throws) (KString (ascii ''s2'')) = None"
  using missing_credential_no_set [where apiKey = None and P = "engine []"
      and r = "typed_request [\<lparr>role = User, content = ascii ''hi''\<rparr>] (Some (JStr (ascii ''s1'')))"
      and conv = "[KString (ascii ''s1'') \<mapsto> \<lparr>messages = [], expiresAt = 100\<rparr>,
                   KString (ascii ''s2'') \<mapsto> \<lparr>messages = [], expiresAt = 10\<rparr>]"
      and uuid = "ascii ''u1''" and ref = 0 and tsweep = 50 and tstore = 51
      and upstream = Throws]
  by (simp add: session_key_def typed_request_def ascii_def cleanupExpired_def)

text \<open>
  C3, as the specification has it, fails twice. An empty assistant message that is not
  the last one is filtered out as well: of an empty assistant message and then a user
  message, the specification's wording keeps both, the relay stores the second only. And
  a request that passes the credential check is not stored at all when the mapping of its
  messages throws: with \<open>messages\<close> the array of \<open>null\<close>, the answer is 400 and the
  session's entry is the one that was there.
\<close>

theorem store_trailing_only_counterexample:
  "map_option messages
     (snd (POST (engine []) Map.empty
        (Some (typed_request [\<lparr>role = Assistant, content = []\<rparr>,
                              \<lparr>role = User, content = ascii ''hi''\<rparr>]
                 (Some (JStr (ascii ''s1'')))))
        (Some (ascii ''key'')) 0 0 (ascii ''u1'') 0 Throws) (KString (ascii ''s1'')))
     \<noteq> Some (map message_json (without_trailing_empty_assistant
          [\<lparr>role = Assistant, content = []\<rparr>, \<lparr>role = User, content = ascii ''hi''\<rparr>]))
   \<and> fst (POST (engine [])
        [KString (ascii ''s1'') \<mapsto> \<lparr>messages = [], expiresAt = 100\<rparr>]
        (Some \<lparr>req_messages = Some (JArr [JNull]), req_sessionId = Some (JStr (ascii ''s1''))\<rparr>)
        (Some (ascii ''key'')) 50 51 (ascii ''u1'') 0 Throws)
       = \<lparr>status = 400, body = Text (ascii ''Bad Request'')\<rparr>
   \<and> snd (POST (engine [])
        [KString (ascii ''s1'') \<mapsto> \<lparr>messages = [], expiresAt = 100\<rparr>]
        (Some \<lparr>req_messages = Some (JArr [JNull]), req_sessionId = Some (JStr (ascii ''s1''))\<rparr>)
        (Some (ascii ''key'')) 50 51 (ascii ''u1'') 0 Throws) (KString (ascii ''s1''))
       = Some \<lparr>messages = [], expiresAt = 100\<rparr>"
  by (simp add: POST_def Let_def session_key_def conversations_set_def toStore_def ascii_def
      without_trailing_empty_assistant_def typed_request_def message_list_def message_json_def
      truthy_opt_def cleanupExpired_def)

text \<open>
  C3, amended. For a request that passes the credential check and whose messages can be
  mapped (\<open>messages\<close> is absent or counts as false, or is an array without \<open>null\<close>),
  whatever the upstream call comes to, the cache afterwards holds for the request's
  session the inbound history without any message whose role is \<open>assistant\<close> and whose
  content counts as false, the other messages in their order, with the expiry
  \<open>tstore + CONVO_TTL_MS\<close> read at the store. For messages typed as the handler declares
  them these are the messages that are not assistant messages of empty content. When the
  mapping throws, the answer is 400 and nothing is stored.
\<close>

theorem store_before_upstream_call:
  "apiKey = Some key \<Longrightarrow> key \<noteq> [] \<Longrightarrow>
   (message_list r = Some ms \<longrightarrow>
      snd (POST P conv (Some r) apiKey tsweep tstore uuid ref upstream) (session_key r uuid ref)
        = Some \<lparr>messages =
                   filter (\<lambda>m. \<not> (get_prop m (ascii ''role'') = Some (JStr (ascii ''assistant''))
                                  \<and> \<not> truthy_opt (get_prop m (ascii ''content'')))) ms,
                expiresAt = tstore + CONVO_TTL_MS\<rparr>)
   \<and> (req_messages r = Some (JArr (map message_json typed)) \<longrightarrow>
      snd (POST P conv (Some r) apiKey tsweep tstore uuid ref upstream) (session_key r uuid ref)
        = Some \<lparr>messages =
                   map message_json
                     (filter (\<lambda>m. \<not> (role m = Assistant \<and> content m = [])) typed),
                expiresAt = tstore + CONVO_TTL_MS\<rparr>)
   \<and> (message_list r = None \<longrightarrow>
      POST P conv (Some r) apiKey tsweep tstore uuid ref upstream
        = (\<lparr>status = 400, body = Text (ascii ''Bad Request'')\<rparr>, cleanupExpired tsweep conv))"
proof (intro conjI impI)
  assume a: "apiKey = Some key" "key \<noteq> []"
  {
    assume "message_list r = Some ms"
    with a show "snd (POST P conv (Some r) apiKey tsweep tstore uuid ref upstream)
          (session_key r uuid ref)
        = Some \<lparr>messages =
                   filter (\<lambda>m. \<not> (get_prop m (ascii ''role'') = Some (JStr (ascii ''assistant''))
                                  \<and> \<not> truthy_opt (get_prop m (ascii ''content'')))) ms,
                expiresAt = tstore + CONVO_TTL_MS\<rparr>"
      by (simp add: POST_stores conversations_set_def toStore_def)
  next
    assume "req_messages r = Some (JArr (map message_json typed))"
    then have "message_list r = Some (map message_json typed)"
      using message_list_typed [of typed "req_sessionId r"]
      by (simp add: message_list_def typed_request_def)
    with a show "snd (POST P conv (Some r) apiKey tsweep tstore uuid ref upstream)
          (session_key r uuid ref)
        = Some \<lparr>messages =
                   map message_json
                     (filter (\<lambda>m. \<not> (role m = Assistant \<and> content m = [])) typed),
                expiresAt = tstore + CONVO_TTL_MS\<rparr>"
      by (simp add: POST_stores conversations_set_def toStore_typed)
  next
    assume "message_list r = None"
    with a show "POST P conv (Some r) apiKey tsweep tstore uuid ref upstream
        = (\<lparr>status = 400, body = Text (ascii ''Bad Request'')\<rparr>, cleanupExpired tsweep conv)"
      by (rule POST_throws_in_map)
  }
qed

theorem store_before_upstream_call_witness:
  "Some (ascii ''key'') = Some (ascii ''key'') \<and> ascii ''key'' \<noteq> []
   \<and> req_messages (typed_request [\<lparr>role = Assistant, content = []\<rparr>,
                                   \<lparr>role = User, content = ascii ''hi''\<rparr>,
                                   \<lparr>role = Assistant, content = []\<rparr>]
                      (Some (JStr (ascii ''s1''))))
       = Some (JArr (map message_json [\<lparr>role = Assistant, content = []\<rparr>,
                                       \<lparr>role = User, content = ascii ''hi''\<rparr>,
                                       \<lparr>role = Assistant, content = []\<rparr>]))
   \<and> snd (POST (engine []) Map.empty
        (Some (typed_request [\<lparr>role = Assistant, content = []\<rparr>,
                              \<lparr>role = User, content = ascii ''hi''\<rparr>,
                              \<lparr>role = Assistant, content = []\<rparr>]
                 (Some (JStr (ascii ''s1'')))))
        (Some (ascii ''key'')) 5 7 (ascii ''u1'') 0 Throws) (KString (ascii ''s1''))
     = Some \<lparr>messages = [message_json \<lparr>role = User, content = ascii ''hi''\<rparr>],
             expiresAt = 3600007\<rparr>
   \<and> message_list \<lparr>req_messages = Some (JObj []), req_sessionId = None\<rparr> = None
   \<and> POST (engine []) Map.empty
        (Some \<lparr>req_messages = Some (JObj []), req_sessionId = None\<rparr>)
        (Some (ascii ''key'')) 5 7 (ascii ''u1'') 0 Throws
     = (\<lparr>status = 400, body = Text (ascii ''Bad Request'')\<rparr>, cleanupExpired 5 Map.empty)"
proof -
  let ?typed = "[\<lparr>role = Assistant, content = []\<rparr>, \<lparr>role = User, content = ascii ''hi''\<rparr>,
                 \<lparr>role = Assistant, content = []\<rparr>]"
  have k: "ascii ''key'' \<noteq> []" by (simp add: ascii_def)
  have bad: "message_list \<lparr>req_messages = Some (JObj []), req_sessionId = None\<rparr> = None"
    by (simp add: message_list_def)
  note a = store_before_upstream_call [OF refl k, where P = "engine []" and conv = Map.empty
      and r = "typed_request ?typed (Some (JStr (ascii ''s1'')))" and typed = ?typed
      and tsweep = 5 and tstore = 7 and uuid = "ascii ''u1''" and ref = 0 and upstream = Throws]
  note b = store_before_upstream_call [OF refl k, where P = "engine []" and conv = Map.empty
      and r = "\<lparr>req_messages = Some (JObj []), req_sessionId = None\<rparr>"
      and tsweep = 5 and tstore = 7 and uuid = "ascii ''u1''" and ref = 0 and upstream = Throws]
  from a [THEN conjunct2, THEN conjunct1] b [THEN conjunct2, THEN conjunct2] bad k
  show ?thesis
    by (simp add: typed_request_def session_key_def CONVO_TTL_MS_def) (simp add: ascii_def)
qed

text \<open>
  C2, as the specification has it, fails: when the upstream \<open>fetch\<close> throws, the handler's
  \<open>catch\<close> answers 400, not 502.
\<close>

theorem thrown_fetch_counterexample:
  "fst (POST (engine []) Map.empty
        (Some (typed_request [\<lparr>role = User, content = ascii ''hi''\<rparr>]
                 (Some (JStr (ascii ''s1'')))))
        (Some (ascii ''key'')) 0 0 (ascii ''u1'') 0 Throws)
     = \<lparr>status = 400, body = Text (ascii ''Bad Request'')\<rparr>
   \<and> status (fst (POST (engine []) Map.empty
        (Some (typed_request [\<lparr>role = User, content = ascii ''hi''\<rparr>]
                 (Some (JStr (ascii ''s1'')))))
        (Some (ascii ''key'')) 0 0 (ascii ''u1'') 0 Throws)) \<noteq> 502"
  by (simp add: POST_def Let_def ascii_def message_list_typed)

text \<open>
  C2, amended. When the upstream call has been issued and resolves to a response that is
  not ok or has no body, the handler answers 502 with the text \<open>Upstream error:\<close>, the
  upstream's status code, its status text, a line feed and the upstream's error text.
\<close>

theorem upstream_failure_502:
  "apiKey = Some key \<Longrightarrow> key \<noteq> [] \<Longrightarrow> message_list r = Some ms \<Longrightarrow>
   \<not> ok u \<or> up_body u = None \<Longrightarrow>
   fst (POST P conv (Some r) apiKey tsweep tstore uuid ref (Resolves u))
     = \<lparr>status = 502,
        body = Text (ascii ''Upstream error: '' @ show_nat (up_status u) @ ascii '' ''
                 @ up_statusText u @ [0x0A] @ (case up_text u of None \<Rightarrow> [] | Some t \<Rightarrow> t))\<rparr>"
  by (auto simp: POST_def Let_def upstream_error_def)

theorem upstream_failure_502_witness:
  "Some (ascii ''key'') = Some (ascii ''key'') \<and> ascii ''key'' \<noteq> []
   \<and> message_list (typed_request [\<lparr>role = User, content = ascii ''hi''\<rparr>]
                      (Some (JStr (ascii ''s1''))))
       = Some [message_json \<lparr>role = User, content = ascii ''hi''\<rparr>]
   \<and> \<not> ok \<lparr>up_status = 429, up_statusText = ascii ''Too Many Requests'',
            up_body = Some [], up_text = Some (ascii ''quota'')\<rparr>
   \<and> fst (POST (engine []) Map.empty
        (Some (typed_request [\<lparr>role = User, content = ascii ''hi''\<rparr>]
                 (Some (JStr (ascii ''s1'')))))
        (Some (ascii ''key'')) 0 0 (ascii ''u1'') 0
        (Resolves \<lparr>up_status = 429, up_statusText = ascii ''Too Many Requests'',
            up_body = Some [], up_text = Some (ascii ''quota'')\<rparr>))
     = \<lparr>status = 502,
        body = Text (ascii ''Upstream error: 429 Too Many Requests'' @ [0x0A] @ ascii ''quota'')\<rparr>"
proof -
  have k: "ascii ''key'' \<noteq> []" by (simp add: ascii_def)
  have m: "message_list (typed_request [\<lparr>role = User, content = ascii ''hi''\<rparr>]
                      (Some (JStr (ascii ''s1''))))
       = Some [message_json \<lparr>role = User, content = ascii ''hi''\<rparr>]"
    by (simp add: message_list_typed)
  have n: "\<not> ok \<lparr>up_status = 429, up_statusText = ascii ''Too Many Requests'',
            up_body = Some [], up_text = Some (ascii ''quota'')\<rparr>"
    by (simp add: ok_def)
  from upstream_failure_502 [OF refl k m disjI1 [OF n], where P = "engine []"
      and conv = Map.empty and tsweep = 0 and tstore = 0 and uuid = "ascii ''u1''" and ref = 0]
    k m n
  show ?thesis by (simp add: ascii_def show_nat.simps)
qed




subsection \<open>The stream\<close>

lemma for_matches_append:
  "for_matches P (xs @ ys) q = for_matches P ys (for_matches P xs q)"
  by (induction xs arbitrary: q) simp_all

text \<open>Without \<open>stream\<close>, every call of \<open>decode\<close> starts afresh.\<close>

lemma decode_flush_fresh:
  "\<not> do_not_flush td \<Longrightarrow>
   decode td val False = (fst (decode new_TextDecoder val False), snd (decode td val False))
   \<and> \<not> do_not_flush (snd (decode td val False))"
  by (simp add: decode_def new_TextDecoder_def Let_def split: prod.splits)

lemma pump_for_matches:
  "\<not> do_not_flush td \<Longrightarrow>
   pump P td chunks q = for_matches P (concat (map received_events chunks)) q"
proof (induction chunks arbitrary: td q)
  case Nil
  then show ?case by simp
next
  case (Cons val rest)
  obtain chunk td' where d: "decode td val False = (chunk, td')"
    by (cases "decode td val False")
  from decode_flush_fresh [OF Cons.prems, of val] d
  have chunk: "chunk = fst (decode new_TextDecoder val False)" and td': "\<not> do_not_flush td'"
    by simp_all
  show ?case
    using Cons.IH [OF td'] d chunk
    by (simp add: received_events_def for_matches_append)
qed

lemma start_for_matches:
  "start P chunks = for_matches P (concat (map received_events chunks)) []"
  using pump_for_matches [of new_TextDecoder P chunks "[]"]
  by (simp add: start_def new_TextDecoder_def)

lemma utf8_run_ascii:
  "bytes_needed d = 0 \<Longrightarrow> list_all (\<lambda>b. b \<le> 0x7F) bs \<Longrightarrow>
   utf8_run d bs = (map (\<lambda>b. CodePoint (unat b)) bs, d)"
  by (induction bs) (simp_all add: utf8_handler_def lead_byte_def)

lemma decode_ascii:
  assumes "\<not> do_not_flush td" and "list_all (\<lambda>b. b \<le> 0x7F) bs"
  shows "fst (decode td bs False) = map unat bs"
proof -
  have run: "utf8_run utf8_initial bs = (map (\<lambda>b. CodePoint (unat b)) bs, utf8_initial)"
    using assms(2) by (intro utf8_run_ascii) (simp_all add: utf8_initial_def)
  have flush: "utf8_flush utf8_initial = ([], utf8_initial)"
    by (simp add: utf8_flush_def utf8_initial_def)
  have repl: "map (replacement \<circ> (\<lambda>b. CodePoint (unat b))) bs = map unat bs"
    by (simp add: replacement_def)
  have "serialize False (map unat bs) = (map unat bs, bs \<noteq> [])"
  proof (cases bs)
    case Nil
    then show ?thesis by (simp add: serialize_def)
  next
    case (Cons b bs')
    with assms(2) have "unat b \<le> 127" by (simp add: word_le_nat_alt)
    then show ?thesis using Cons by (simp add: serialize_def)
  qed
  then show ?thesis
    using assms(1) by (simp add: decode_def run flush repl)
qed

text \<open>On an event that carries a text, the relay's reading and the specification's agree.\<close>

lemma extract_text_text_event: "extract_text (text_event s) = JStr s"
  by (simp add: extract_text_def text_event_def opt_get_def ascii_def)

lemma text_fragment_text_event:
  "text_fragment (text_event s) = (if s = [] then None else Some s)"
  by (simp add: text_fragment_def text_event_def ascii_def)

lemma example_engine_parses:
  "JSON_parse example_engine (ascii Hel_json) = Some (text_event (ascii ''Hel''))"
  "JSON_parse example_engine (ascii bad_json) = None"
  "JSON_parse example_engine (ascii lo_json) = Some (text_event (ascii ''lo''))"
  "JSON_parse example_engine (ascii Hello_json) = Some (text_event (ascii ''Hello''))"
  by (simp_all add: example_engine_def engine_def ascii_def Hel_json_def bad_json_def
      lo_json_def Hello_json_def)

lemma example_engine_enqueues:
  "process_match example_engine (ascii Hel_json) q = q @ [bytes_of ''Hel'']"
  "process_match example_engine (ascii bad_json) q = q"
  "process_match example_engine (ascii lo_json) q = q @ [bytes_of ''lo'']"
  "process_match example_engine (ascii Hello_json) q = q @ [bytes_of ''Hello'']"
  by (simp_all add: process_match_def example_engine_parses extract_text_text_event)
    (simp_all add: ascii_def bytes_of_def encode_def utf8_bytes_def)

text \<open>
  C5 does not hold of the relay, by the defect of C1. Of three events, the second of
  which cannot be parsed, the first and the third are to be forwarded, and they are when
  the three arrive in one chunk: the second is passed over and the loop goes on. When the
  third is cut by the end of a chunk, it is found in neither chunk, and only the first is
  forwarded.
\<close>

theorem malformed_then_cut_event:
  \<open>data_line Hel_json @ data_line bad_json
       @ bytes_of ''data: {"candidates":[{"content":{"parts"''
       @ (bytes_of '':[{"text":"lo"}]}}]}'' @ [0x0A, 0x0A])
     = data_line Hel_json @ data_line bad_json @ data_line lo_json
   \<and> fragments_of_valid_events example_engine [ascii Hel_json, ascii bad_json, ascii lo_json]
     = [bytes_of ''Hel'', bytes_of ''lo'']
   \<and> start example_engine [data_line Hel_json @ data_line bad_json @ data_line lo_json]
     = [bytes_of ''Hel'', bytes_of ''lo'']
   \<and> start example_engine
       [data_line Hel_json @ data_line bad_json
          @ bytes_of ''data: {"candidates":[{"content":{"parts"'',
        bytes_of '':[{"text":"lo"}]}}]}'' @ [0x0A, 0x0A]]
     = [bytes_of ''Hel'']\<close>
proof -
  have whole: "received_events (data_line Hel_json @ data_line bad_json @ data_line lo_json)
      = [ascii Hel_json, ascii bad_json, ascii lo_json]"
    unfolding received_events_def
    by (subst decode_ascii)
      (simp_all add: new_TextDecoder_def bytes_of_def matchAll_def match_here_def ascii_def
        is_space_def is_white_space_def is_line_terminator_def data_line_def
        Hel_json_def bad_json_def lo_json_def)
  have cut1: \<open>received_events (data_line Hel_json @ data_line bad_json
          @ bytes_of ''data: {"candidates":[{"content":{"parts"'')
      = [ascii Hel_json, ascii bad_json]\<close>
    unfolding received_events_def
    by (subst decode_ascii)
      (simp_all add: new_TextDecoder_def bytes_of_def matchAll_def match_here_def ascii_def
        is_space_def is_white_space_def is_line_terminator_def data_line_def
        Hel_json_def bad_json_def)
  have cut2: \<open>received_events (bytes_of '':[{"text":"lo"}]}}]}'' @ [0x0A, 0x0A]) = []\<close>
    unfolding received_events_def
    by (subst decode_ascii)
      (simp_all add: new_TextDecoder_def bytes_of_def matchAll_def match_here_def ascii_def)
  have spec: "fragments_of_valid_events example_engine
        [ascii Hel_json, ascii bad_json, ascii lo_json] = [bytes_of ''Hel'', bytes_of ''lo'']"
    by (simp add: fragments_of_valid_events_def map_filter_simps example_engine_parses
        text_fragment_text_event)
      (simp add: ascii_def bytes_of_def encode_def utf8_bytes_def)
  have same: \<open>data_line Hel_json @ data_line bad_json
       @ bytes_of ''data: {"candidates":[{"content":{"parts"''
       @ (bytes_of '':[{"text":"lo"}]}}]}'' @ [0x0A, 0x0A])
     = data_line Hel_json @ data_line bad_json @ data_line lo_json\<close>
    by (simp add: data_line_def lo_json_def bytes_of_def)
  show ?thesis
    by (simp only: same spec start_for_matches whole cut1 cut2 list.map concat.simps
        append_Nil2 append.simps for_matches.simps example_engine_enqueues)
qed

lemmas decode_eval = decode_def new_TextDecoder_def utf8_handler_def lead_byte_def
  utf8_initial_def utf8_flush_def serialize_def replacement_def Let_def

text \<open>
  A valid event is lost in one chunk too when its text holds a line separator, U+2028, as
  JSON allows: the \<open>.\<close> of the regular expression stops there, and no closing brace
  comes before it.
\<close>

lemma line_separator_event_lost:
  \<open>start P [bytes_of ''data: {"candidates":[{"content":{"parts":[{"text":"a''
              @ [0xE2, 0x80, 0xA8] @ bytes_of ''b"}]}}]}'' @ [0x0A, 0x0A]] = []\<close>
proof -
  have d: \<open>fst (decode new_TextDecoder
       (bytes_of ''data: {"candidates":[{"content":{"parts":[{"text":"a''
              @ [0xE2, 0x80, 0xA8] @ bytes_of ''b"}]}}]}'' @ [0x0A, 0x0A]) False)
     = ascii ''data: {"candidates":[{"content":{"parts":[{"text":"a'' @ [0x2028]
         @ ascii ''b"}]}}]}'' @ [0x0A, 0x0A]\<close>
    by (simp add: decode_eval bytes_of_def ascii_def)
  have r: \<open>received_events
       (bytes_of ''data: {"candidates":[{"content":{"parts":[{"text":"a''
              @ [0xE2, 0x80, 0xA8] @ bytes_of ''b"}]}}]}'' @ [0x0A, 0x0A]) = []\<close>
    unfolding received_events_def
    by (subst d)
      (simp add: matchAll_def match_here_def ascii_def is_space_def is_white_space_def
        is_line_terminator_def)
  show ?thesis
    by (simp only: start_for_matches r list.map concat.simps append_Nil2 for_matches.simps)
qed

text \<open>
  C1 does not hold of the relay. The event that carries \<open>Hello\<close>, received in one chunk,
  is forwarded; received in two chunks, cut inside the text, it is found in neither and
  nothing is forwarded, whatever the engine.
\<close>

theorem split_event_dropped:
  \<open>bytes_of ''data: {"candidates":[{"content":{"parts":[{"text":"Hel''
     @ (bytes_of ''lo"}]}}]}'' @ [0x0A, 0x0A]) = data_line Hello_json
   \<and> start example_engine [data_line Hello_json] = [bytes_of ''Hello'']
   \<and> start P [bytes_of ''data: {"candidates":[{"content":{"parts":[{"text":"Hel'',
               bytes_of ''lo"}]}}]}'' @ [0x0A, 0x0A]] = []\<close>
proof -
  have 1: \<open>received_events (bytes_of ''data: {"candidates":[{"content":{"parts":[{"text":"Hel'') = []\<close>
    unfolding received_events_def
    by (subst decode_ascii)
      (simp_all add: new_TextDecoder_def bytes_of_def matchAll_def match_here_def ascii_def
        is_space_def is_white_space_def is_line_terminator_def)
  have 2: \<open>received_events (bytes_of ''lo"}]}}]}'' @ [0x0A, 0x0A]) = []\<close>
    unfolding received_events_def
    by (subst decode_ascii)
      (simp_all add: new_TextDecoder_def bytes_of_def matchAll_def match_here_def ascii_def)
  have 3: "received_events (data_line Hello_json) = [ascii Hello_json]"
    unfolding received_events_def
    by (subst decode_ascii)
      (simp_all add: new_TextDecoder_def bytes_of_def matchAll_def match_here_def ascii_def
        is_space_def is_white_space_def is_line_terminator_def data_line_def Hello_json_def)
  have same: \<open>bytes_of ''data: {"candidates":[{"content":{"parts":[{"text":"Hel''
     @ (bytes_of ''lo"}]}}]}'' @ [0x0A, 0x0A]) = data_line Hello_json\<close>
    by (simp add: data_line_def Hello_json_def bytes_of_def)
  show ?thesis
    by (simp only: same start_for_matches 1 2 3 list.map concat.simps append_Nil2
        append.simps for_matches.simps example_engine_enqueues)
qed

section \<open>Properties of the client\<close>

subsection \<open>Submitting\<close>

lemma trim_Nil: "trim [] = []"
  by (simp add: trim_def)

lemma submit_cases:
  "submit st typed i d
     = (if disabled st \<or> trim typed = [] then st
        else st\<lparr>ui_messages := ui_messages st @
                   [\<lparr>role = User, content = trim typed, msg_id = i\<rparr>,
                    \<lparr>role = Assistant, content = Thinking, msg_id = d\<rparr>],
                ui_error := None, ui_loading := True,
                ui_turns := ui_turns st @ [\<lparr>draft_id = d, phase = Sending\<rparr>]\<rparr>)"
  by (auto simp: submit_def form_message_def onSubmit_def handleSend_def disabled_def Let_def
      trim_Nil)

lemma msg_id_set_draft: "map msg_id (set_draft draft acc ms) = map msg_id ms"
  by (induction ms) (simp_all add: set_draft_def)

lemma drop_turn_single: "length ts \<le> 1 \<Longrightarrow> k < length ts \<Longrightarrow> drop_turn k ts = []"
  by (cases ts) (simp_all add: drop_turn_def)

text \<open>
  In every state the component can be in, \<open>loading\<close> is set exactly while a call is in
  flight, at most one call is in flight, and the identifiers of the messages differ.
\<close>

lemma reachable_inv:
  "reachable st \<Longrightarrow>
   (ui_loading st \<longleftrightarrow> ui_turns st \<noteq> []) \<and> length (ui_turns st) \<le> 1
     \<and> distinct (map msg_id (ui_messages st))"
proof (induction rule: reachable.induct)
  case at_start
  then show ?case by (simp add: initial_def)
next
  case (after_mount st sid)
  then show ?case by simp
next
  case (after_submit st new_id new_draft typed)
  then show ?case
    by (auto simp: submit_cases disabled_def)
next
  case (after_response st k)
  then show ?case by (auto simp: on_response_def)
next
  case (after_chunk st k val)
  then show ?case
    by (auto simp: on_chunk_def read_chunk_def Let_def msg_id_set_draft
        split: phase.splits prod.splits)
next
  case (after_done st k)
  then show ?case by (auto simp: on_done_def drop_turn_single)
next
  case (after_throw st k)
  then show ?case by (auto simp: on_throw_def drop_turn_single)
qed

lemma filter_id_le_one:
  "distinct (map f xs) \<Longrightarrow> length (filter (\<lambda>x. f x = a) xs) \<le> 1"
proof (induction xs)
  case Nil
  then show ?case by simp
next
  case (Cons x xs)
  show ?case
  proof (cases "f x = a")
    case True
    from Cons.prems have "f x \<notin> f ` set xs" by simp
    with True have "\<forall>y \<in> set xs. f y \<noteq> a" by blast
    then have "filter (\<lambda>x. f x = a) xs = []" by (simp add: filter_empty_conv)
    with True show ?thesis by simp
  next
    case False
    with Cons show ?thesis by simp
  qed
qed

lemma filter_length_mono:
  "(\<And>x. x \<in> set xs \<Longrightarrow> P x \<Longrightarrow> Q x) \<Longrightarrow> length (filter P xs) \<le> length (filter Q xs)"
  by (induction xs) auto

lemma awaiting_le_one:
  assumes "length (ui_turns st) \<le> 1" and "distinct (map msg_id (ui_messages st))"
  shows "length (filter (awaiting st) (ui_messages st)) \<le> 1"
proof (cases "ui_turns st")
  case Nil
  then show ?thesis by (simp add: awaiting_def)
next
  case (Cons t ts)
  with assms(1) have ts: "ui_turns st = [t]" by simp
  have "length (filter (awaiting st) (ui_messages st))
      \<le> length (filter (\<lambda>m. msg_id m = draft_id t) (ui_messages st))"
    by (rule filter_length_mono) (simp add: awaiting_def ts)
  also have "\<dots> \<le> 1" using assms(2) by (rule filter_id_le_one)
  finally show ?thesis .
qed

lemma reachable_example:
  "reachable (submit mounted (ascii ''hi'') (ascii ''m1'') (ascii ''d1''))"
proof -
  have "reachable mounted"
    unfolding mounted_def by (rule after_mount) (rule at_start)
  then show ?thesis
    by (rule after_submit) (simp_all add: mounted_def initial_def ascii_def)
qed

text \<open>
  C7. With a session identifier, a form whose data holds a text that is not empty once
  trimmed appends the user message with the trimmed text and then the assistant draft
  with the content \<open>Thinking\<close>, in this order, at the end of the transcript; this is the
  state at the first \<open>await\<close>, the call in flight still sending. That is what a submit on
  the enabled form does. A text that is empty once trimmed changes nothing.
\<close>

theorem submit_appends_user_then_draft:
  "(ui_sessionId st = Some sid \<and> sid \<noteq> [] \<and> trim typed \<noteq> [] \<longrightarrow>
      ui_messages (onSubmit st (Some typed) new_id new_draft)
        = ui_messages st @ [\<lparr>role = User, content = trim typed, msg_id = new_id\<rparr>,
                            \<lparr>role = Assistant, content = Thinking, msg_id = new_draft\<rparr>]
      \<and> ui_turns (onSubmit st (Some typed) new_id new_draft)
        = ui_turns st @ [\<lparr>draft_id = new_draft, phase = Sending\<rparr>])
   \<and> (\<not> disabled st \<longrightarrow>
        submit st typed new_id new_draft = onSubmit st (Some typed) new_id new_draft)
   \<and> (trim typed = [] \<longrightarrow>
        onSubmit st (Some typed) new_id new_draft = st \<and> submit st typed new_id new_draft = st)"
  by (auto simp: submit_def form_message_def onSubmit_def handleSend_def no_session_def Let_def
      trim_Nil)

theorem submit_appends_user_then_draft_witness:
  "ui_sessionId mounted = Some (ascii ''s1'') \<and> ascii ''s1'' \<noteq> []
   \<and> trim (ascii ''  hi '') \<noteq> []
   \<and> ui_messages (submit mounted (ascii ''  hi '') (ascii ''m1'') (ascii ''d1''))
       = [\<lparr>role = User, content = ascii ''hi'', msg_id = ascii ''m1''\<rparr>,
          \<lparr>role = Assistant, content = ascii ''Thinking'' @ [0x2026], msg_id = ascii ''d1''\<rparr>]
   \<and> \<not> disabled mounted
   \<and> trim (ascii ''   '') = []
   \<and> submit mounted (ascii ''   '') (ascii ''m1'') (ascii ''d1'') = mounted"
proof -
  have t: "trim (ascii ''  hi '') = ascii ''hi''" "trim (ascii ''   '') = []"
    by (simp_all add: trim_def ascii_def is_space_def is_white_space_def is_line_terminator_def)
  have m: "ui_sessionId mounted = Some (ascii ''s1'')" "ascii ''s1'' \<noteq> []" "\<not> disabled mounted"
    "ui_messages mounted = []"
    by (simp_all add: mounted_def initial_def disabled_def no_session_def ascii_def)
  from submit_appends_user_then_draft [of mounted "ascii ''s1''" "ascii ''  hi ''"
      "ascii ''m1''" "ascii ''d1''"]
    submit_appends_user_then_draft [of mounted "ascii ''s1''" "ascii ''   ''"
      "ascii ''m1''" "ascii ''d1''"]
  show ?thesis
    by (simp add: t m Thinking_def) (simp add: ascii_def)
qed

text \<open>
  C6. In every state the component can be in: while a call is in flight (sending or
  streaming), a submit on the form leaves the state, and so the length of the
  transcript, as it is; and at most one assistant message of the transcript awaits
  content.
\<close>

theorem one_turn_at_a_time:
  "reachable st \<Longrightarrow>
     (ui_turns st \<noteq> [] \<longrightarrow>
        submit st typed new_id new_draft = st
        \<and> length (ui_messages (submit st typed new_id new_draft)) = length (ui_messages st))
     \<and> length (filter (awaiting st) (ui_messages st)) \<le> 1"
  using reachable_inv [of st] awaiting_le_one [of st]
  by (auto simp: submit_cases disabled_def)

theorem one_turn_at_a_time_witness:
  "reachable (submit mounted (ascii ''hi'') (ascii ''m1'') (ascii ''d1''))
   \<and> ui_turns (submit mounted (ascii ''hi'') (ascii ''m1'') (ascii ''d1''))
       = [\<lparr>draft_id = ascii ''d1'', phase = Sending\<rparr>]
   \<and> submit (submit mounted (ascii ''hi'') (ascii ''m1'') (ascii ''d1''))
        (ascii ''again'') (ascii ''m2'') (ascii ''d2'')
       = submit mounted (ascii ''hi'') (ascii ''m1'') (ascii ''d1'')
   \<and> length (filter (awaiting (submit mounted (ascii ''hi'') (ascii ''m1'') (ascii ''d1'')))
        (ui_messages (submit mounted (ascii ''hi'') (ascii ''m1'') (ascii ''d1'')))) \<le> 1"
proof -
  have t: "trim (ascii ''hi'') = ascii ''hi''"
    by (simp add: trim_def ascii_def is_space_def is_white_space_def is_line_terminator_def)
  have turns: "ui_turns (submit mounted (ascii ''hi'') (ascii ''m1'') (ascii ''d1''))
       = [\<lparr>draft_id = ascii ''d1'', phase = Sending\<rparr>]"
    by (simp add: submit_cases t) (simp add: mounted_def initial_def disabled_def no_session_def
        ascii_def)
  from one_turn_at_a_time [OF reachable_example, of "ascii ''again''" "ascii ''m2''" "ascii ''d2''"]
    reachable_example turns
  show ?thesis by simp
qed

subsection \<open>Reading the stream\<close>

lemma utf8_run_append:
  "utf8_run d (xs @ ys)
     = (fst (utf8_run d xs) @ fst (utf8_run (snd (utf8_run d xs)) ys),
        snd (utf8_run (snd (utf8_run d xs)) ys))"
  by (induction xs arbitrary: d) (simp_all add: split_beta Let_def)

lemma serialize_append:
  "serialize seen (xs @ ys)
     = (fst (serialize seen xs) @ fst (serialize (snd (serialize seen xs)) ys),
        snd (serialize (snd (serialize seen xs)) ys))"
  by (cases xs) (auto simp: serialize_def split: list.splits)

lemma decode_stream:
  "streaming td \<Longrightarrow>
   decode td val True
     = (fst (serialize (bom_seen td) (map replacement (fst (utf8_run (decoder td) val)))),
        \<lparr>decoder = snd (utf8_run (decoder td) val),
         bom_seen = snd (serialize (bom_seen td) (map replacement (fst (utf8_run (decoder td) val)))),
         do_not_flush = True\<rparr>)"
  by (auto simp: streaming_def decode_def Let_def split_beta)

text \<open>The accumulator after the loop: what the decoder makes of all the bytes in a row.\<close>

lemma read_loop_acc:
  "streaming td \<Longrightarrow>
   fst (snd (read_loop draft chunks (td, acc, ms)))
     = acc @ fst (serialize (bom_seen td)
                   (map replacement (fst (utf8_run (decoder td) (concat chunks)))))"
proof (induction chunks arbitrary: td acc ms)
  case Nil
  then show ?case by (simp add: serialize_def)
next
  case (Cons val rest)
  let ?td = "snd (decode td val True)"
  have s: "streaming ?td"
    using Cons.prems by (simp add: decode_stream streaming_def)
  show ?case
    using Cons.IH [OF s] Cons.prems
    by (simp add: read_chunk_def decode_stream utf8_run_append serialize_append Let_def)
qed

lemma set_draft_twice: "set_draft draft a (set_draft draft b ms) = set_draft draft a ms"
  by (induction ms) (simp_all add: set_draft_def)

lemma read_loop_messages:
  "snd (snd (read_loop draft chunks (td, acc, ms)))
     = (if chunks = [] then ms
        else set_draft draft (fst (snd (read_loop draft chunks (td, acc, ms)))) ms)"
proof (induction chunks arbitrary: td acc ms)
  case Nil
  then show ?case by simp
next
  case (Cons val rest)
  define td' where "td' = snd (decode td val True)"
  define acc' where "acc' = acc @ fst (decode td val True)"
  have step: "read_chunk draft val (td, acc, ms) = (td', acc', set_draft draft acc' ms)"
    by (simp add: read_chunk_def Let_def split_beta td'_def acc'_def)
  show ?case
  proof (cases "rest = []")
    case True
    then show ?thesis by (simp add: step)
  next
    case False
    then show ?thesis
      using Cons.IH [of td' acc' "set_draft draft acc' ms"]
      by (simp add: step set_draft_twice)
  qed
qed

lemma decode_whole_valid:
  assumes "decodes_validly bs"
  shows "fst (decode new_TextDecoder bs False)
     = fst (serialize False (map replacement (fst (utf8_run utf8_initial bs))))"
proof -
  from assms have "fst (utf8_flush (snd (utf8_run utf8_initial bs))) = []"
    by (auto simp: decodes_validly_def utf8_flush_def split_beta split: if_splits)
  then show ?thesis
    by (simp add: decode_def new_TextDecoder_def Let_def split_beta)
qed

text \<open>
  C4, as the specification has it, fails: when the body yields no chunk, the decoding of
  the whole stream is the empty string, and the draft shows \<open>Thinking\<close>.
\<close>

theorem stream_rendered_counterexample:
  "decodes_validly (concat [])
   \<and> content (last (snd (snd (read_loop (ascii ''d1'') []
        (new_TextDecoder, [],
         ui_messages (handleSend mounted (ascii ''hi'') (ascii ''m1'') (ascii ''d1'')))))))
     \<noteq> fst (decode new_TextDecoder (concat []) False)"
  by (simp add: decodes_validly_def utf8_flush_def utf8_initial_def handleSend_def no_session_def
      mounted_def initial_def ascii_def Thinking_def decode_def new_TextDecoder_def serialize_def
      Let_def)

text \<open>
  C4, amended. For chunks whose bytes in a row decode validly, however they are cut:
  after the reading loop the accumulator is the decoding of all the bytes in a row, and
  the assistant draft that \<open>handleSend\<close> appended holds that text, or \<open>Thinking\<close> when that
  text is empty.
\<close>

theorem stream_rendered_content:
  assumes "decodes_validly (concat chunks)"
    and "ui_sessionId st = Some sid" and "sid \<noteq> []"
  shows "(case read_loop draft chunks
            (new_TextDecoder, [], ui_messages (handleSend st text new_id draft)) of
          (td, acc, ms) \<Rightarrow>
            acc = fst (decode new_TextDecoder (concat chunks) False)
            \<and> last ms = \<lparr>role = Assistant,
                  content = (if fst (decode new_TextDecoder (concat chunks) False) = [] then Thinking
                             else fst (decode new_TextDecoder (concat chunks) False)),
                  msg_id = draft\<rparr>)"
proof -
  let ?ms = "ui_messages (handleSend st text new_id draft)"
  let ?r = "read_loop draft chunks (new_TextDecoder, [], ?ms)"
  let ?whole = "fst (decode new_TextDecoder (concat chunks) False)"
  have "streaming new_TextDecoder"
    by (simp add: streaming_def new_TextDecoder_def)
  then have "fst (snd ?r)
      = fst (serialize False (map replacement (fst (utf8_run utf8_initial (concat chunks)))))"
    using read_loop_acc [of new_TextDecoder draft chunks "[]" ?ms]
    by (simp add: new_TextDecoder_def)
  then have acc: "fst (snd ?r) = ?whole"
    by (simp only: decode_whole_valid [OF assms(1)])
  have ms: "?ms = (ui_messages st @ [\<lparr>role = User, content = text, msg_id = new_id\<rparr>])
                  @ [\<lparr>role = Assistant, content = Thinking, msg_id = draft\<rparr>]"
    using assms(2,3) by (simp add: handleSend_def no_session_def)
  have "last (snd (snd ?r)) = \<lparr>role = Assistant,
      content = (if ?whole = [] then Thinking else ?whole), msg_id = draft\<rparr>"
  proof (cases "chunks = []")
    case True
    then have "?whole = []"
      by (simp add: decode_def new_TextDecoder_def utf8_flush_def utf8_initial_def serialize_def)
    with True show ?thesis by (simp add: ms)
  next
    case False
    then show ?thesis
      by (simp add: read_loop_messages acc) (simp add: ms set_draft_def)
  qed
  with acc show ?thesis by (simp add: split_beta)
qed

text \<open>The witness: \<open>H\<close> and \<open>e\<close> with an acute accent, the two bytes of the second apart.\<close>

theorem stream_rendered_content_witness:
  "decodes_validly (concat [[0x48, 0xC3], [0xA9]])
   \<and> ui_sessionId mounted = Some (ascii ''s1'') \<and> ascii ''s1'' \<noteq> []
   \<and> fst (decode new_TextDecoder (concat [[0x48, 0xC3], [0xA9]]) False) = [0x48, 0xE9]
   \<and> fst (snd (read_loop (ascii ''d1'') [[0x48, 0xC3], [0xA9]]
        (new_TextDecoder, [],
         ui_messages (handleSend mounted (ascii ''hi'') (ascii ''m1'') (ascii ''d1'')))))
       = [0x48, 0xE9]
   \<and> last (snd (snd (read_loop (ascii ''d1'') [[0x48, 0xC3], [0xA9]]
        (new_TextDecoder, [],
         ui_messages (handleSend mounted (ascii ''hi'') (ascii ''m1'') (ascii ''d1''))))))
       = \<lparr>role = Assistant, content = [0x48, 0xE9], msg_id = ascii ''d1''\<rparr>"
proof -
  have v: "decodes_validly (concat [[0x48, 0xC3], [0xA9]])"
    by (simp add: decodes_validly_def decode_eval)
  have m: "ui_sessionId mounted = Some (ascii ''s1'')" "ascii ''s1'' \<noteq> []"
    by (simp_all add: mounted_def initial_def ascii_def)
  have w: "fst (decode new_TextDecoder (concat [[0x48, 0xC3], [0xA9]]) False) = [0x48, 0xE9]"
    by (simp add: decode_eval)
  from stream_rendered_content [OF v m, of "ascii ''d1''" "ascii ''hi''" "ascii ''m1''"]
  show ?thesis
    by (simp only: w v m split_beta) simp
qed

end
